theory Spec2Isabelle
  imports Main "HOL-Library.Word"
begin

section \<open>Values, objects and element trees\<close>

text \<open>
  The component file \<^verbatim>\<open>src/components/HomepageFeatures/index.js\<close> builds React element
  trees from plain JavaScript objects. A value of the model is one of the kinds of value
  that the file stores in a record or passes as a prop: the primitives, a function (a
  component: the payload stands for the function's text, which is all that string
  conversion reads), a fragment \<^verbatim>\<open><>...</>\<close> and an element \<^verbatim>\<open><T p=...>...</T>\<close> with
  its type, its props other than children, and its children. Strings are byte strings
  (UTF-8). A number is an integer from \<open>- 2 ^ 53\<close> to \<open>2 ^ 53 - 1\<close>, the signed value of a
  54-bit word: each of these is a JavaScript number exactly, and its string is its decimal
  notation. \<^verbatim>\<open>Feature\<close> is private to the module and is not itself a value that a record
  holds.
\<close>

datatype jsval =
    JUndefined
  | JNull
  | JBool bool
  | JNumber "54 word"
  | JString string
  | JFunction string
  | JFragment "jsval list"
  | JElement jsval "(string \<times> jsval) list" "jsval list"

text \<open>
  An object is the list of its own properties, in the order in which the object lists
  them; for keys that are not array indices, as all keys of the file are, that is the
  order of insertion. Reading a property that the object does not have gives
  \<^verbatim>\<open>undefined\<close>, as member access and destructuring do.
\<close>

type_synonym obj = "(string \<times> jsval) list"

definition get_prop :: "obj \<Rightarrow> string \<Rightarrow> jsval" where
  "get_prop ob k = (case map_of ob k of None \<Rightarrow> JUndefined | Some v \<Rightarrow> v)"

text \<open>
  \<^verbatim>\<open>{...props}\<close> copies the own properties of \<^verbatim>\<open>props\<close> into a fresh object. Objects
  are values here, so the copy has the same list of properties and the original is
  untouched.
\<close>

definition spread :: "obj \<Rightarrow> obj" where
  "spread ob = ob"

subsection \<open>String conversion\<close>

text \<open>Decimal digits of a natural number, most significant first.\<close>

definition digit_char :: "nat \<Rightarrow> char" where
  "digit_char d = char_of (48 + d)"

fun digits :: "nat \<Rightarrow> string" where
  "digits n = (if n < 10 then [digit_char n] else digits (n div 10) @ [digit_char (n mod 10)])"

declare digits.simps [simp del]

text \<open>
  \<^verbatim>\<open>'' + v\<close>, the conversion React applies to a key. A fragment or an element is an
  object, whose conversion is the fixed text below. An array index is a natural number
  and its string is \<open>digits\<close> of it.
\<close>

fun to_string :: "jsval \<Rightarrow> string" where
  "to_string JUndefined = ''undefined''"
| "to_string JNull = ''null''"
| "to_string (JBool b) = (if b then ''true'' else ''false'')"
| "to_string (JNumber w) =
    (if sint w < 0 then ''-'' @ digits (nat (- sint w)) else digits (nat (sint w)))"
| "to_string (JString s) = s"
| "to_string (JFunction f) = f"
| "to_string (JFragment cs) = ''[object Object]''"
| "to_string (JElement t ps cs) = ''[object Object]''"

subsection \<open>Imports\<close>

text \<open>
  \<^verbatim>\<open>clsx\<close> joins the class names it is given; the file calls it with one string
  literal, which it returns.
\<close>

definition clsx :: "string \<Rightarrow> jsval" where
  "clsx s = JString s"

text \<open>\<^verbatim>\<open>Heading\<close> is the heading component of the site's theme.\<close>

definition Heading :: jsval where
  "Heading = JFunction ''@theme/Heading''"

text \<open>
  Modelled from the spec: the SVG modules under \<^verbatim>\<open>static/img\<close> that the records
  \<^verbatim>\<open>require\<close> are not among the sources. The spec calls the \<^verbatim>\<open>Svg\<close> field of a record
  its icon, so the default export of each module is taken to be an icon component,
  named by the path of its module.
\<close>

definition require_default :: "string \<Rightarrow> jsval" where
  "require_default path = JFunction path"

text \<open>
  The object \<^verbatim>\<open>styles\<close> imported from \<^verbatim>\<open>./styles.module.css\<close> is a parameter of the
  functions that read it: the style sheet is not among the sources, and a class it does
  not define reads as \<^verbatim>\<open>undefined\<close>.
\<close>

section \<open>The module\<close>

subsection \<open>FeatureList\<close>

text \<open>
  The module holds one binding, the array \<^verbatim>\<open>FeatureList\<close>. The module's state is a
  record with that array; \<open>shipped\<close> is the state the file's initialiser builds (lines
  5 to 36). The text of a JSX fragment is its lines, trimmed and joined by one space.
\<close>

record module_state =
  FeatureList :: "obj list"

definition shipped :: module_state where
  "shipped = \<lparr>FeatureList =
    [ [ (''title'', JString ''Organized Study Notes''),
        (''Svg'', require_default ''@site/static/img/undraw_docusaurus_mountain.svg''),
        (''description'', JFragment [JString
          ''Keep all your study notes structured and easily accessible in one centralized place.'']) ],
      [ (''title'', JString ''Copyable Code & Diagrams''),
        (''Svg'', require_default ''@site/static/img/undraw_docusaurus_tree.svg''),
        (''description'', JFragment [JString
          ''Include code snippets, diagrams, and links that you can copy or reference instantly while studying.'']) ],
      [ (''title'', JString ''Markdown Powered''),
        (''Svg'', require_default ''@site/static/img/undraw_docusaurus_react.svg''),
        (''description'', JFragment [JString
          (''Write your notes in Markdown, with full support for headings, lists, images, and links ''
             @ [CHR 0xE2, CHR 0x80, CHR 0x94]
             @ '' powered by React for seamless integration.'')]) ] ]\<rparr>"

subsection \<open>Feature\<close>

text \<open>
  \<^verbatim>\<open>function Feature({Svg, title, description})\<close>, lines 38 to 50: the three fields are
  read from the props object and placed in a fixed template.
\<close>

definition Feature :: "obj \<Rightarrow> obj \<Rightarrow> jsval" where
  "Feature styles props =
    (let Svg = get_prop props ''Svg'';
         title = get_prop props ''title'';
         description = get_prop props ''description''
     in JElement (JString ''div'') [(''className'', clsx ''col col--4'')]
          [ JElement (JString ''div'') [(''className'', JString ''text--center'')]
              [ JElement Svg [(''className'', get_prop styles ''featureSvg''),
                              (''role'', JString ''img'')] [] ],
            JElement (JString ''div'') [(''className'', JString ''text--center padding-horiz--md'')]
              [ JElement Heading [(''as'', JString ''h3'')] [title],
                JElement (JString ''p'') [] [description] ] ])"

subsection \<open>HomepageFeatures\<close>

text \<open>
  The tree that \<^verbatim>\<open>HomepageFeatures\<close> returns is made of host elements and of
  \<^verbatim>\<open>Feature\<close> elements. A \<^verbatim>\<open>Feature\<close> element carries its key and its props.
\<close>

datatype element =
    Host string obj "element list"
  | FeatureElement "string option" obj

text \<open>
  \<^verbatim>\<open><Feature key={idx} {...props} />\<close>, line 58. The file imports no \<^verbatim>\<open>React\<close>, so
  the element is made by the automatic runtime's \<^verbatim>\<open>jsx(Feature, {...props}, idx)\<close>: the
  key is the string of \<^verbatim>\<open>idx\<close>, replaced by the string of the config's own \<^verbatim>\<open>key\<close>
  when that is not \<^verbatim>\<open>undefined\<close>, and the props are the config's properties other than
  \<^verbatim>\<open>key\<close>. (Some versions of React withhold \<^verbatim>\<open>ref\<close> from the props as well;
  \<^verbatim>\<open>Feature\<close> reads neither.) The third argument is the array index that the map
  passes, which is never \<^verbatim>\<open>undefined\<close>.
\<close>

definition jsx_Feature :: "obj \<Rightarrow> nat \<Rightarrow> element" where
  "jsx_Feature config idx =
    (let key0 = Some (digits idx);
         key = (if get_prop config ''key'' \<noteq> JUndefined
                then Some (to_string (get_prop config ''key'')) else key0)
     in FeatureElement key (filter (\<lambda>(k, v). k \<noteq> ''key'') config))"

text \<open>
  \<^verbatim>\<open>FeatureList.map((props, idx) => ...)\<close>, lines 57 to 59: the callback is applied to
  each record and its index, in order.
\<close>

definition map_idx :: "('a \<Rightarrow> nat \<Rightarrow> 'b) \<Rightarrow> 'a list \<Rightarrow> 'b list" where
  "map_idx f xs = map (\<lambda>(idx, x). f x idx) (enumerate 0 xs)"

text \<open>
  \<^verbatim>\<open>HomepageFeatures\<close>, lines 52 to 64. It reads the module's array and returns the
  tree together with the module's state. The records are values here; the section on
  the store takes them as objects that the array refers to.
\<close>

definition HomepageFeatures :: "obj \<Rightarrow> 'a module_state_scheme \<Rightarrow> element \<times> 'a module_state_scheme" where
  "HomepageFeatures styles m =
    (Host ''section'' [(''className'', get_prop styles ''features'')]
       [ Host ''div'' [(''className'', JString ''container'')]
           [ Host ''div'' [(''className'', JString ''row'')]
               (map_idx (\<lambda>props idx. jsx_Feature (spread props) idx)
                  (FeatureList m)) ] ],
     m)"

section \<open>Rendering\<close>

text \<open>
  What React does with a tree: a host element renders to a node with its rendered
  children, a \<^verbatim>\<open>Feature\<close> element to what the tree returned by \<^verbatim>\<open>Feature\<close> renders to.
  In that tree an element whose type is a string is a host node, one whose type is a
  function is an instance of an imported component, kept with its props and rendered
  children, and any other type is the error "Element type is invalid". A number and a
  string that is not empty are text; \<^verbatim>\<open>undefined\<close>, \<^verbatim>\<open>null\<close>, a boolean, the empty
  string and a bare function render nothing.
\<close>

datatype error = InvalidElementType jsval

datatype node =
    Text string
  | Node string obj "node list"
  | Instance string obj "node list"

fun render_static :: "jsval \<Rightarrow> error + node list"
  and render_children :: "jsval list \<Rightarrow> error + node list" where
  "render_static JUndefined = Inr []"
| "render_static JNull = Inr []"
| "render_static (JBool b) = Inr []"
| "render_static (JNumber w) = Inr [Text (to_string (JNumber w))]"
| "render_static (JString s) = (if s = [] then Inr [] else Inr [Text s])"
| "render_static (JFunction f) = Inr []"
| "render_static (JFragment cs) = render_children cs"
| "render_static (JElement t ps cs) =
    (case t of
       JString tag \<Rightarrow>
         (case render_children cs of Inl e \<Rightarrow> Inl e | Inr ns \<Rightarrow> Inr [Node tag ps ns])
     | JFunction f \<Rightarrow>
         (case render_children cs of Inl e \<Rightarrow> Inl e | Inr ns \<Rightarrow> Inr [Instance f ps ns])
     | _ \<Rightarrow> Inl (InvalidElementType t))"
| "render_children [] = Inr []"
| "render_children (c # cs) =
    (case render_static c of
       Inl e \<Rightarrow> Inl e
     | Inr ns \<Rightarrow> (case render_children cs of Inl e \<Rightarrow> Inl e | Inr ms \<Rightarrow> Inr (ns @ ms)))"

fun render :: "obj \<Rightarrow> element \<Rightarrow> error + node list"
  and render_elements :: "obj \<Rightarrow> element list \<Rightarrow> error + node list" where
  "render styles (Host tag ps es) =
    (case render_elements styles es of Inl e \<Rightarrow> Inl e | Inr ns \<Rightarrow> Inr [Node tag ps ns])"
| "render styles (FeatureElement key props) = render_static (Feature styles props)"
| "render_elements styles [] = Inr []"
| "render_elements styles (e # es) =
    (case render styles e of
       Inl err \<Rightarrow> Inl err
     | Inr ns \<Rightarrow> (case render_elements styles es of Inl err \<Rightarrow> Inl err | Inr ms \<Rightarrow> Inr (ns @ ms)))"

text \<open>The \<^verbatim>\<open>Feature\<close> elements of a tree, in document order.\<close>

fun feature_elements :: "element \<Rightarrow> element list"
  and feature_elements_list :: "element list \<Rightarrow> element list" where
  "feature_elements (Host tag ps es) = feature_elements_list es"
| "feature_elements (FeatureElement key props) = [FeatureElement key props]"
| "feature_elements_list [] = []"
| "feature_elements_list (e # es) = feature_elements e @ feature_elements_list es"

fun key_of :: "element \<Rightarrow> string option" where
  "key_of (FeatureElement key props) = key"
| "key_of (Host tag ps es) = None"

fun props_of :: "element \<Rightarrow> obj" where
  "props_of (FeatureElement key props) = props"
| "props_of (Host tag ps es) = ps"

text \<open>
  A property of a record is present and defined when the record has it and its value is
  not \<^verbatim>\<open>undefined\<close>.
\<close>

definition has_defined :: "obj \<Rightarrow> string \<Rightarrow> bool" where
  "has_defined ob k = (case map_of ob k of None \<Rightarrow> False | Some v \<Rightarrow> v \<noteq> JUndefined)"

text \<open>The number that a string of decimal digits denotes.\<close>

definition digits_value :: "string \<Rightarrow> nat" where
  "digits_value cs = foldl (\<lambda>a c. 10 * a + (of_char c - 48)) 0 cs"

section \<open>The module over a store of objects\<close>

text \<open>
  The trees above are built from objects taken as values. In the program a record is an
  object that the array refers to, and both the spread of line 58 and the runtime's
  \<^verbatim>\<open>jsx\<close> write the properties of objects. This section models the same code over a
  store: the store holds the objects, the array holds references to the records, and
  the functions of the module take the store and return it. An address is a position in
  the list of objects. React elements are never written after they are made and stay
  values; the objects of the store are the records, the copies that the spread makes
  and the props objects that \<^verbatim>\<open>jsx\<close> makes.
\<close>

type_synonym addr = nat

record store =
  objects :: "obj list"
  array :: "addr list"

text \<open>
  The object at an address. The program has no dangling reference; an address past the
  end of the store reads as an object without properties.
\<close>

definition deref :: "store \<Rightarrow> addr \<Rightarrow> obj" where
  "deref s a = (if a < length (objects s) then objects s ! a else [])"

text \<open>\<^verbatim>\<open>{}\<close>: a fresh object, at the first address not in use.\<close>

definition new_object :: "store \<Rightarrow> addr \<times> store" where
  "new_object s = (length (objects s), s\<lparr>objects := objects s @ [[]]\<rparr>)"

text \<open>
  \<^verbatim>\<open>o[k] = v\<close>: the value of an own property is replaced, a new property is added
  after the others (the place of a key that is not an array index).
\<close>

fun put_prop :: "string \<Rightarrow> jsval \<Rightarrow> obj \<Rightarrow> obj" where
  "put_prop k v [] = [(k, v)]"
| "put_prop k v ((k', v') # ps) =
    (if k' = k then (k', v) # ps else (k', v') # put_prop k v ps)"

definition set_property :: "addr \<Rightarrow> string \<Rightarrow> jsval \<Rightarrow> store \<Rightarrow> store" where
  "set_property a k v s =
    (if a < length (objects s)
     then s\<lparr>objects := (objects s)[a := put_prop k v (objects s ! a)]\<rparr>
     else s)"

text \<open>
  The loop that the spread and \<^verbatim>\<open>jsx\<close> share: the own keys of the source are taken
  in order, and for each key that passes the filter the property is read from the
  source, in the store as it is then, and written to the target.
\<close>

definition copy_step :: "(string \<Rightarrow> bool) \<Rightarrow> addr \<Rightarrow> addr \<Rightarrow> string \<Rightarrow> store \<Rightarrow> store" where
  "copy_step keep src target k s' =
    (if keep k then set_property target k (get_prop (deref s' src) k) s' else s')"

definition copy_properties :: "(string \<Rightarrow> bool) \<Rightarrow> addr \<Rightarrow> addr \<Rightarrow> store \<Rightarrow> store" where
  "copy_properties keep src target s =
    fold (copy_step keep src target) (map fst (deref s src)) s"

text \<open>\<^verbatim>\<open>{...props}\<close>: a fresh object that receives every own property of \<^verbatim>\<open>props\<close>.\<close>

definition spread_st :: "addr \<Rightarrow> store \<Rightarrow> addr \<times> store" where
  "spread_st props s =
    (let (target, s1) = new_object s
     in (target, copy_properties (\<lambda>k. True) props target s1))"

text \<open>
  A tree over the store: a \<^verbatim>\<open>Feature\<close> element refers to its props object.
\<close>

datatype selement =
    SHost string obj "selement list"
  | SFeature "string option" addr

text \<open>
  \<^verbatim>\<open>jsx(Feature, config, idx)\<close> over the store: the key is computed as in
  \<open>jsx_Feature\<close>, and the props are a fresh object that receives the properties of the
  config other than \<^verbatim>\<open>key\<close>.
\<close>

definition jsx_Feature_st :: "addr \<Rightarrow> nat \<Rightarrow> store \<Rightarrow> selement \<times> store" where
  "jsx_Feature_st config idx s =
    (let key0 = Some (digits idx);
         key = (if get_prop (deref s config) ''key'' \<noteq> JUndefined
                then Some (to_string (get_prop (deref s config) ''key'')) else key0);
         (props, s1) = new_object s
     in (SFeature key props, copy_properties (\<lambda>k. k \<noteq> ''key'') config props s1))"

text \<open>
  \<^verbatim>\<open>Array.prototype.map\<close>: the length is read once; then, for each index below it
  that the array still has, the element is read from the array as it is then and the
  callback is called with the element and the index.
\<close>

fun map_loop ::
  "(addr \<Rightarrow> nat \<Rightarrow> store \<Rightarrow> 'b \<times> store) \<Rightarrow> nat \<Rightarrow> nat \<Rightarrow> store \<Rightarrow> 'b list \<times> store" where
  "map_loop f 0 k s = ([], s)"
| "map_loop f (Suc n) k s =
    (if k < length (array s)
     then (let (y, s1) = f (array s ! k) k s;
               (ys, s2) = map_loop f n (Suc k) s1
           in (y # ys, s2))
     else map_loop f n (Suc k) s)"

text \<open>The arrow function of lines 57 to 59, and \<^verbatim>\<open>HomepageFeatures\<close>, over the store.\<close>

definition callback_st :: "addr \<Rightarrow> nat \<Rightarrow> store \<Rightarrow> selement \<times> store" where
  "callback_st props idx s =
    (let (config, s1) = spread_st props s in jsx_Feature_st config idx s1)"

definition HomepageFeatures_st :: "obj \<Rightarrow> store \<Rightarrow> selement \<times> store" where
  "HomepageFeatures_st styles s =
    (let (cards, s') = map_loop callback_st (length (array s)) 0 s
     in (SHost ''section'' [(''className'', get_prop styles ''features'')]
           [ SHost ''div'' [(''className'', JString ''container'')]
               [ SHost ''div'' [(''className'', JString ''row'')] cards ] ],
         s'))"

text \<open>
  React calls \<^verbatim>\<open>Feature\<close> with the props object of each \<^verbatim>\<open>Feature\<close> element, and
  \<^verbatim>\<open>Feature\<close> reads its three properties from that object as the store has it at that
  time. One render of the component is the call of \<^verbatim>\<open>HomepageFeatures\<close> followed by
  the rendering of the tree it returned, in the store the call left.
\<close>

fun resolve :: "store \<Rightarrow> selement \<Rightarrow> element"
  and resolve_list :: "store \<Rightarrow> selement list \<Rightarrow> element list" where
  "resolve s (SHost tag ps es) = Host tag ps (resolve_list s es)"
| "resolve s (SFeature key props) = FeatureElement key (deref s props)"
| "resolve_list s [] = []"
| "resolve_list s (e # es) = resolve s e # resolve_list s es"

definition render_st :: "obj \<Rightarrow> store \<Rightarrow> selement \<Rightarrow> error + node list" where
  "render_st styles s t = render styles (resolve s t)"

definition render_page :: "obj \<Rightarrow> store \<Rightarrow> (error + node list) \<times> store" where
  "render_page styles s =
    (let (tree, s') = HomepageFeatures_st styles s in (render_st styles s' tree, s'))"

section \<open>Basic facts\<close>

subsection \<open>Decimal strings\<close>

lemma digits_value_snoc:
  "digits_value (cs @ [c]) = 10 * digits_value cs + (of_char c - 48)"
  by (simp add: digits_value_def)

lemma digit_char_value: "d < 10 \<Longrightarrow> of_char (digit_char d) - 48 = d"
  by (simp add: digit_char_def)

lemma digits_value_digits: "digits_value (digits n) = n"
proof (induction n rule: digits.induct)
  case (1 n)
  show ?case
  proof (cases "n < 10")
    case True
    then show ?thesis
      by (subst digits.simps) (simp add: digits_value_def digit_char_value)
  next
    case False
    then have "digits_value (digits n) =
        10 * digits_value (digits (n div 10)) + (of_char (digit_char (n mod 10)) - 48)"
      by (subst digits.simps) (simp add: digits_value_snoc)
    also have "\<dots> = 10 * (n div 10) + n mod 10"
      using 1 False by (simp add: digit_char_value)
    finally show ?thesis by simp
  qed
qed

lemma inj_digits: "inj digits"
  by (rule inj_on_inverseI [where g = digits_value]) (rule digits_value_digits)

subsection \<open>The elements that the map creates\<close>

lemma map_idx_nth: "map_idx f xs = map (\<lambda>i. f (xs ! i) i) [0..<length xs]"
  unfolding map_idx_def enumerate_eq_zip
  by (rule nth_equalityI) simp_all

lemma feature_elements_list_jsx:
  "feature_elements_list (map (\<lambda>i. jsx_Feature (g i) (h i)) is) =
     map (\<lambda>i. jsx_Feature (g i) (h i)) is"
  by (induction "is") (simp_all add: jsx_Feature_def Let_def)

lemma feature_elements_HomepageFeatures:
  "feature_elements (fst (HomepageFeatures styles m)) =
     map (\<lambda>i. jsx_Feature (FeatureList m ! i) i) [0..<length (FeatureList m)]"
  by (simp add: HomepageFeatures_def map_idx_nth spread_def feature_elements_list_jsx)

lemma map_of_filter_key:
  "map_of (filter (\<lambda>(k, v). k \<noteq> a) ob) b = (if b = a then None else map_of ob b)"
  by (induction ob) auto

lemma get_prop_jsx_Feature:
  "name \<noteq> ''key'' \<Longrightarrow> get_prop (props_of (jsx_Feature config k)) name = get_prop config name"
  by (simp add: jsx_Feature_def Let_def get_prop_def map_of_filter_key)

lemma key_of_jsx_Feature_index:
  "get_prop r ''key'' = JUndefined \<Longrightarrow>
     key_of (jsx_Feature r i) = Some (digits i)"
  by (simp add: jsx_Feature_def Let_def)

subsection \<open>Rendering a card\<close>

lemma render_static_Feature_length:
  "render_static (Feature styles props) = Inr ns \<Longrightarrow> length ns = 1"
  by (auto simp: Feature_def Let_def clsx_def split: sum.splits jsval.splits)

lemma render_elements_jsx_length:
  "render_elements styles (map (\<lambda>i. jsx_Feature (g i) (h i)) is) = Inr ns \<Longrightarrow>
     length ns = length is"
proof (induction "is" arbitrary: ns)
  case Nil
  then show ?case by simp
next
  case (Cons i "is")
  from Cons.prems obtain a b where
    a: "render styles (jsx_Feature (g i) (h i)) = Inr a" and
    b: "render_elements styles (map (\<lambda>i. jsx_Feature (g i) (h i)) is) = Inr b" and
    ns: "ns = a @ b"
    by (auto split: sum.splits)
  from a have "length a = 1"
    by (auto simp: jsx_Feature_def Let_def dest: render_static_Feature_length)
  with Cons.IH [OF b] ns show ?case by simp
qed

text \<open>
  The error branch exists: a \<^verbatim>\<open>Feature\<close> element whose props have no \<^verbatim>\<open>Svg\<close> makes an
  element of type \<^verbatim>\<open>undefined\<close>, which React refuses to render.
\<close>

lemma render_Feature_without_Svg:
  "get_prop props ''Svg'' = JUndefined \<Longrightarrow>
     render styles (FeatureElement key props) = Inl (InvalidElementType JUndefined)"
  by (simp add: Feature_def Let_def clsx_def)

subsection \<open>Rendering the page\<close>

lemma Feature_cong:
  assumes "get_prop p ''Svg'' = get_prop r ''Svg''"
      and "get_prop p ''title'' = get_prop r ''title''"
      and "get_prop p ''description'' = get_prop r ''description''"
  shows "Feature styles p = Feature styles r"
  using assms by (simp add: Feature_def)

lemma render_jsx_Feature: "render styles (jsx_Feature r k) = render_static (Feature styles r)"
proof -
  have "Feature styles (props_of (jsx_Feature r k)) = Feature styles r"
    by (rule Feature_cong) (simp_all add: get_prop_jsx_Feature)
  then show ?thesis
    by (simp add: jsx_Feature_def Let_def)
qed

lemma render_elements_jsx:
  "render_elements styles (map (\<lambda>i. jsx_Feature (g i) (h i)) is) =
     render_children (map (\<lambda>i. Feature styles (g i)) is)"
  by (induction "is") (simp_all add: render_jsx_Feature split: sum.splits)

lemma render_HomepageFeatures:
  "render styles (fst (HomepageFeatures styles m)) =
     (case render_children (map (Feature styles) (FeatureList m)) of
        Inl e \<Rightarrow> Inl e
      | Inr cards \<Rightarrow>
          Inr [Node ''section'' [(''className'', get_prop styles ''features'')]
                [Node ''div'' [(''className'', JString ''container'')]
                  [Node ''div'' [(''className'', JString ''row'')] cards]]])"
proof -
  have "map (\<lambda>i. Feature styles (FeatureList m ! i)) [0..<length (FeatureList m)] =
      map (Feature styles) (FeatureList m)"
    by (rule nth_equalityI) simp_all
  then show ?thesis
    by (simp add: HomepageFeatures_def map_idx_nth spread_def render_elements_jsx
          split: sum.splits)
qed


subsection \<open>Writes to the store\<close>

lemma array_set_property: "array (set_property a k v s) = array s"
  by (simp add: set_property_def)

lemma length_objects_set_property:
  "length (objects (set_property a k v s)) = length (objects s)"
  by (simp add: set_property_def)

lemma take_objects_set_property:
  "n \<le> a \<Longrightarrow> take n (objects (set_property a k v s)) = take n (objects s)"
  by (simp add: set_property_def)

lemma deref_set_property:
  "deref (set_property a k v s) b =
     (if b = a \<and> a < length (objects s) then put_prop k v (deref s a) else deref s b)"
  by (auto simp: set_property_def deref_def)

lemma map_of_put_prop:
  "map_of (put_prop k v ob) k' = (if k' = k then Some v else map_of ob k')"
  by (induction ob) auto

lemma get_prop_put_prop:
  "get_prop (put_prop k v ob) k' = (if k' = k then v else get_prop ob k')"
  by (simp add: get_prop_def map_of_put_prop)

lemma get_prop_fold_put:
  "get_prop (fold (\<lambda>k ob. if keep k then put_prop k (g k) ob else ob) ks ob0) k' =
     (if k' \<in> set ks \<and> keep k' then g k' else get_prop ob0 k')"
  by (induction ks arbitrary: ob0) (auto simp: get_prop_put_prop)

lemma get_prop_absent: "k \<notin> fst ` set ob \<Longrightarrow> get_prop ob k = JUndefined"
  by (simp add: get_prop_def map_of_eq_None_iff [THEN iffD2])

lemma copy_loop_frame:
  "array (fold (copy_step keep src target) ks s) = array s
   \<and> length (objects (fold (copy_step keep src target) ks s)) = length (objects s)
   \<and> (n \<le> target \<longrightarrow> take n (objects (fold (copy_step keep src target) ks s)) = take n (objects s))"
  by (induction ks arbitrary: s)
     (simp_all add: copy_step_def array_set_property length_objects_set_property
        take_objects_set_property)

lemma copy_loop_other:
  "b \<noteq> target \<Longrightarrow> deref (fold (copy_step keep src target) ks s) b = deref s b"
  by (induction ks arbitrary: s) (simp_all add: copy_step_def deref_set_property)

lemma copy_loop_target:
  assumes "src \<noteq> target" and "target < length (objects s)"
  shows "deref (fold (copy_step keep src target) ks s) target =
           fold (\<lambda>k ob. if keep k then put_prop k (get_prop (deref s src) k) ob else ob) ks
             (deref s target)"
  using assms
proof (induction ks arbitrary: s)
  case Nil
  then show ?case by simp
next
  case (Cons k ks)
  let ?s1 = "copy_step keep src target k s"
  have len: "target < length (objects ?s1)"
    using Cons.prems by (simp add: copy_step_def length_objects_set_property)
  have src: "deref ?s1 src = deref s src"
    using Cons.prems by (simp add: copy_step_def deref_set_property)
  have tgt: "deref ?s1 target =
      (if keep k then put_prop k (get_prop (deref s src) k) (deref s target) else deref s target)"
    using Cons.prems by (simp add: copy_step_def deref_set_property)
  have "deref (fold (copy_step keep src target) ks ?s1) target =
      fold (\<lambda>k ob. if keep k then put_prop k (get_prop (deref ?s1 src) k) ob else ob) ks
        (deref ?s1 target)"
    by (rule Cons.IH [OF Cons.prems(1) len])
  then show ?case
    unfolding src tgt by simp
qed

lemma copy_properties_fold:
  "copy_properties keep src target s = fold (copy_step keep src target) (map fst (deref s src)) s"
  by (simp add: copy_properties_def)

lemma deref_frame:
  assumes "take (length (objects s)) (objects s') = objects s" and "a < length (objects s)"
  shows "deref s' a = deref s a"
proof -
  from assms(1) have "length (take (length (objects s)) (objects s')) = length (objects s)"
    by simp
  then have "length (objects s) \<le> length (objects s')"
    by simp
  moreover have "take (length (objects s)) (objects s') ! a = objects s' ! a"
    using assms(2) by simp
  then have "objects s' ! a = objects s ! a"
    by (simp add: assms(1))
  ultimately show ?thesis
    using assms(2) by (simp add: deref_def)
qed

lemma frame_trans:
  assumes "take (length (objects s)) (objects s1) = objects s"
      and "take (length (objects s1)) (objects s2) = objects s1"
  shows "take (length (objects s)) (objects s2) = objects s"
proof -
  from assms(1) have "length (take (length (objects s)) (objects s1)) = length (objects s)"
    by simp
  then have "length (objects s) \<le> length (objects s1)"
    by simp
  then have "take (length (objects s)) (objects s2) =
      take (length (objects s)) (take (length (objects s1)) (objects s2))"
    by (simp add: min_def)
  with assms show ?thesis by simp
qed

text \<open>A fresh object filled from an object of the store.\<close>

lemma fresh_copy_frame:
  "array (copy_properties keep src (fst (new_object s)) (snd (new_object s))) = array s
   \<and> length (objects (copy_properties keep src (fst (new_object s)) (snd (new_object s)))) =
       Suc (length (objects s))
   \<and> take (length (objects s))
        (objects (copy_properties keep src (fst (new_object s)) (snd (new_object s)))) =
       objects s"
  using copy_loop_frame [of keep src "length (objects s)"
      "map fst (deref (snd (new_object s)) src)" "snd (new_object s)" "length (objects s)"]
  by (simp add: copy_properties_fold new_object_def)

lemma fresh_copy_props:
  assumes "src < length (objects s)"
  shows "get_prop (deref (copy_properties keep src (fst (new_object s)) (snd (new_object s)))
            (fst (new_object s))) k =
         (if keep k then get_prop (deref s src) k else JUndefined)"
proof -
  let ?t = "length (objects s)"
  let ?s1 = "s\<lparr>objects := objects s @ [[]]\<rparr>"
  have src: "deref ?s1 src = deref s src"
    using assms by (simp add: deref_def nth_append)
  have tgt: "deref ?s1 ?t = []"
    by (simp add: deref_def)
  have "deref (fold (copy_step keep src ?t) (map fst (deref s src)) ?s1) ?t =
      fold (\<lambda>k ob. if keep k then put_prop k (get_prop (deref ?s1 src) k) ob else ob)
        (map fst (deref s src)) (deref ?s1 ?t)"
    using assms by (intro copy_loop_target) simp_all
  then have "deref (fold (copy_step keep src ?t) (map fst (deref s src)) ?s1) ?t =
      fold (\<lambda>k ob. if keep k then put_prop k (get_prop (deref s src) k) ob else ob)
        (map fst (deref s src)) []"
    unfolding src tgt .
  moreover have "get_prop [] k = JUndefined"
    by (simp add: get_prop_def)
  ultimately have "get_prop (deref (fold (copy_step keep src ?t) (map fst (deref s src)) ?s1) ?t) k =
      (if k \<in> fst ` set (deref s src) \<and> keep k then get_prop (deref s src) k else JUndefined)"
    by (simp add: get_prop_fold_put)
  also have "\<dots> = (if keep k then get_prop (deref s src) k else JUndefined)"
    by (simp add: get_prop_absent)
  finally show ?thesis
    by (simp add: copy_properties_fold new_object_def src)
qed

lemma callback_st_frame:
  "array (snd (callback_st a idx s)) = array s
   \<and> length (objects (snd (callback_st a idx s))) = Suc (Suc (length (objects s)))
   \<and> take (length (objects s)) (objects (snd (callback_st a idx s))) = objects s"
proof -
  let ?s2 = "copy_properties (\<lambda>k. True) a (fst (new_object s)) (snd (new_object s))"
  let ?s4 = "copy_properties (\<lambda>k. k \<noteq> ''key'') (fst (new_object s))
      (fst (new_object ?s2)) (snd (new_object ?s2))"
  have eq: "snd (callback_st a idx s) = ?s4"
    by (simp add: callback_st_def spread_st_def jsx_Feature_st_def Let_def split_beta)
  have a1: "array ?s2 = array s"
    and l1: "length (objects ?s2) = Suc (length (objects s))"
    and t1: "take (length (objects s)) (objects ?s2) = objects s"
    using fresh_copy_frame [of "\<lambda>k. True" a s] by blast+
  have a2: "array ?s4 = array ?s2"
    and l2: "length (objects ?s4) = Suc (length (objects ?s2))"
    and t2: "take (length (objects ?s2)) (objects ?s4) = objects ?s2"
    using fresh_copy_frame [of "\<lambda>k. k \<noteq> ''key''" "fst (new_object s)" ?s2] by blast+
  have t: "take (length (objects s)) (objects ?s4) = objects s"
    by (rule frame_trans [OF t1 t2])
  show ?thesis
    unfolding eq by (simp only: a2 a1 l2 l1 t simp_thms)
qed

lemma callback_st_result:
  assumes "a < length (objects s)"
  shows "fst (callback_st a idx s) =
           SFeature (key_of (jsx_Feature (deref s a) idx)) (Suc (length (objects s)))
         \<and> (\<forall>k. get_prop (deref (snd (callback_st a idx s)) (Suc (length (objects s)))) k =
               (if k \<noteq> ''key'' then get_prop (deref s a) k else JUndefined))"
proof -
  let ?t = "fst (new_object s)"
  let ?s2 = "copy_properties (\<lambda>k. True) a ?t (snd (new_object s))"
  let ?s4 = "copy_properties (\<lambda>k. k \<noteq> ''key'') ?t (fst (new_object ?s2)) (snd (new_object ?s2))"
  have eq: "snd (callback_st a idx s) = ?s4"
    by (simp add: callback_st_def spread_st_def jsx_Feature_st_def Let_def split_beta)
  have l1: "length (objects ?s2) = Suc (length (objects s))"
    using fresh_copy_frame [of "\<lambda>k. True" a s] by blast
  have copy: "get_prop (deref ?s2 ?t) k = get_prop (deref s a) k" for k
    using fresh_copy_props [OF assms, of "\<lambda>k. True" k] by simp
  have t: "?t < length (objects ?s2)"
    by (simp only: l1) (simp add: new_object_def)
  have "fst (new_object ?s2) = length (objects ?s2)"
    by (simp add: new_object_def)
  then have p: "fst (new_object ?s2) = Suc (length (objects s))"
    by (simp only: l1)
  have props: "get_prop (deref ?s4 (Suc (length (objects s)))) k =
      (if k \<noteq> ''key'' then get_prop (deref s a) k else JUndefined)" for k
    using fresh_copy_props [OF t, of "\<lambda>k. k \<noteq> ''key''" k] by (simp add: p copy)
  have "fst (callback_st a idx s) =
      SFeature (key_of (jsx_Feature (deref s a) idx)) (Suc (length (objects s)))"
    by (simp add: callback_st_def spread_st_def jsx_Feature_st_def jsx_Feature_def Let_def
          split_beta copy p)
  with props show ?thesis
    unfolding eq by simp
qed

subsection \<open>The map over the store\<close>

lemma map_loop_frame:
  "array (snd (map_loop callback_st n k s)) = array s
   \<and> length (objects s) \<le> length (objects (snd (map_loop callback_st n k s)))
   \<and> take (length (objects s)) (objects (snd (map_loop callback_st n k s))) = objects s"
proof (induction n arbitrary: k s)
  case 0
  show ?case by simp
next
  case (Suc n)
  show ?case
  proof (cases "k < length (array s)")
    case False
    then show ?thesis
      using Suc.IH [of "Suc k" s] by simp
  next
    case True
    let ?s1 = "snd (callback_st (array s ! k) k s)"
    let ?s2 = "snd (map_loop callback_st n (Suc k) ?s1)"
    have eq: "snd (map_loop callback_st (Suc n) k s) = ?s2"
      using True by (simp add: split_beta)
    have a1: "array ?s1 = array s"
      and l1: "length (objects ?s1) = Suc (Suc (length (objects s)))"
      and t1: "take (length (objects s)) (objects ?s1) = objects s"
      using callback_st_frame [of "array s ! k" k s] by blast+
    have a2: "array ?s2 = array ?s1"
      and l2: "length (objects ?s1) \<le> length (objects ?s2)"
      and t2: "take (length (objects ?s1)) (objects ?s2) = objects ?s1"
      using Suc.IH [of "Suc k" ?s1] by blast+
    have t: "take (length (objects s)) (objects ?s2) = objects s"
      by (rule frame_trans [OF t1 t2])
    have l: "length (objects s) \<le> length (objects ?s2)"
      using l1 l2 by linarith
    show ?thesis
      unfolding eq by (simp only: a2 a1 t l simp_thms)
  qed
qed

lemma map_loop_render:
  assumes "list_all (\<lambda>a. a < length (objects s)) (array s)"
      and "k + n \<le> length (array s)"
  shows "render_elements styles
           (resolve_list (snd (map_loop callback_st n k s)) (fst (map_loop callback_st n k s))) =
         render_children (map (\<lambda>i. Feature styles (deref s (array s ! i))) [k..<k + n])"
  using assms
proof (induction n arbitrary: k s)
  case 0
  show ?case by simp
next
  case (Suc n)
  let ?a = "array s ! k"
  let ?r = "callback_st ?a k s"
  let ?s1 = "snd ?r"
  let ?rest = "map_loop callback_st n (Suc k) ?s1"
  let ?s2 = "snd ?rest"
  let ?p = "Suc (length (objects s))"
  from Suc.prems have k: "k < length (array s)"
    by simp
  with Suc.prems(1) have a: "?a < length (objects s)"
    by (simp add: list_all_length)
  have fst_eq: "fst (map_loop callback_st (Suc n) k s) = fst ?r # fst ?rest"
    and snd_eq: "snd (map_loop callback_st (Suc n) k s) = ?s2"
    using k by (simp_all add: split_beta)
  have a1: "array ?s1 = array s"
    and l1: "length (objects ?s1) = Suc (Suc (length (objects s)))"
    and t1: "take (length (objects s)) (objects ?s1) = objects s"
    using callback_st_frame [of ?a k s] by blast+
  have t2: "take (length (objects ?s1)) (objects ?s2) = objects ?s1"
    using map_loop_frame [of n "Suc k" ?s1] by blast
  have card: "fst ?r = SFeature (key_of (jsx_Feature (deref s ?a) k)) ?p"
    and props: "\<And>name. get_prop (deref ?s1 ?p) name =
        (if name \<noteq> ''key'' then get_prop (deref s ?a) name else JUndefined)"
    using callback_st_result [OF a, of k] by blast+
  have "deref ?s2 ?p = deref ?s1 ?p"
    by (rule deref_frame [OF t2]) (simp add: l1)
  moreover have "Feature styles (deref ?s1 ?p) = Feature styles (deref s ?a)"
    by (rule Feature_cong) (simp_all add: props)
  ultimately have first: "render styles (resolve ?s2 (fst ?r)) =
      render_static (Feature styles (deref s ?a))"
    by (simp add: card)
  have valid1: "list_all (\<lambda>a. a < length (objects ?s1)) (array ?s1)"
    using Suc.prems(1) by (simp add: a1 l1 list_all_length less_Suc_eq)
  have bound1: "Suc k + n \<le> length (array ?s1)"
    using Suc.prems(2) by (simp add: a1)
  have "render_elements styles (resolve_list ?s2 (fst ?rest)) =
      render_children (map (\<lambda>i. Feature styles (deref ?s1 (array ?s1 ! i))) [Suc k..<Suc k + n])"
    by (rule Suc.IH [OF valid1 bound1])
  also have "map (\<lambda>i. Feature styles (deref ?s1 (array ?s1 ! i))) [Suc k..<Suc k + n] =
      map (\<lambda>i. Feature styles (deref s (array s ! i))) [Suc k..<Suc k + n]"
  proof (rule map_cong [OF refl])
    fix i
    assume "i \<in> set [Suc k..<Suc k + n]"
    with Suc.prems(2) have "i < length (array s)"
      by auto
    with Suc.prems(1) have "array s ! i < length (objects s)"
      by (simp add: list_all_length)
    then have "deref ?s1 (array s ! i) = deref s (array s ! i)"
      by (rule deref_frame [OF t1])
    then show "Feature styles (deref ?s1 (array ?s1 ! i)) = Feature styles (deref s (array s ! i))"
      by (simp add: a1)
  qed
  finally have rest: "render_elements styles (resolve_list ?s2 (fst ?rest)) =
      render_children (map (\<lambda>i. Feature styles (deref s (array s ! i))) [Suc k..<Suc k + n])" .
  have "[k..<k + Suc n] = k # [Suc k..<Suc k + n]"
    by (simp add: upt_conv_Cons)
  then show ?case
    unfolding fst_eq snd_eq by (simp add: first rest split: sum.splits)
qed

lemma render_page_refines:
  assumes "list_all (\<lambda>a. a < length (objects s)) (array s)"
  shows "fst (render_page styles s) =
           render styles (fst (HomepageFeatures styles \<lparr>FeatureList = map (deref s) (array s)\<rparr>))"
proof -
  have "map (\<lambda>i. Feature styles (deref s (array s ! i))) [0..<length (array s)] =
      map (Feature styles) (map (deref s) (array s))"
    by (rule nth_equalityI) simp_all
  with map_loop_render [OF assms, of 0 "length (array s)" styles]
  have "render_elements styles
      (resolve_list (snd (map_loop callback_st (length (array s)) 0 s))
         (fst (map_loop callback_st (length (array s)) 0 s))) =
      render_children (map (Feature styles) (map (deref s) (array s)))"
    by simp
  then show ?thesis
    by (simp add: render_page_def HomepageFeatures_st_def render_st_def split_beta
          render_HomepageFeatures split: sum.splits)
qed

lemma render_page_frame:
  "array (snd (render_page styles s)) = array s
   \<and> take (length (objects s)) (objects (snd (render_page styles s))) = objects s"
  using map_loop_frame [of "length (array s)" 0 s]
  by (simp add: render_page_def HomepageFeatures_st_def split_beta)

lemma map_loop_count:
  "k + n \<le> length (array s) \<Longrightarrow>
     length (objects (snd (map_loop callback_st n k s))) = length (objects s) + 2 * n"
proof (induction n arbitrary: k s)
  case 0
  show ?case by simp
next
  case (Suc n)
  let ?s1 = "snd (callback_st (array s ! k) k s)"
  from Suc.prems have k: "k < length (array s)"
    by simp
  have eq: "snd (map_loop callback_st (Suc n) k s) = snd (map_loop callback_st n (Suc k) ?s1)"
    using k by (simp add: split_beta)
  have a1: "array ?s1 = array s"
    and l1: "length (objects ?s1) = Suc (Suc (length (objects s)))"
    using callback_st_frame [of "array s ! k" k s] by blast+
  from Suc.prems have "Suc k + n \<le> length (array ?s1)"
    by (simp add: a1)
  from Suc.IH [OF this] show ?case
    unfolding eq by (simp add: l1)
qed


section \<open>The claims\<close>

text \<open>
  C1. The output of \<^verbatim>\<open>HomepageFeatures\<close> holds one \<^verbatim>\<open>Feature\<close> element per record of
  \<^verbatim>\<open>FeatureList\<close>, in the order of the array, and the props of each element give the
  title, the \<^verbatim>\<open>Svg\<close> and the description of its record.
\<close>

theorem HomepageFeatures_one_card_per_record:
  "map (\<lambda>c. (get_prop (props_of c) ''title'', get_prop (props_of c) ''Svg'',
              get_prop (props_of c) ''description''))
       (feature_elements (fst (HomepageFeatures styles m)))
   = map (\<lambda>r. (get_prop r ''title'', get_prop r ''Svg'', get_prop r ''description''))
       (FeatureList m)"
  by (rule nth_equalityI)
     (simp_all add: feature_elements_HomepageFeatures get_prop_jsx_Feature)

text \<open>
  C2. Each of the three records of the shipped \<^verbatim>\<open>FeatureList\<close> has a title, an \<^verbatim>\<open>Svg\<close>
  and a description, each present and not \<^verbatim>\<open>undefined\<close>.
\<close>

theorem shipped_records_complete:
  "length (FeatureList shipped) = 3
   \<and> list_all (\<lambda>r. has_defined r ''title'' \<and> has_defined r ''Svg''
                    \<and> has_defined r ''description'')
        (FeatureList shipped)"
  by (simp add: shipped_def has_defined_def require_default_def)

text \<open>
  C3. Rendering the tree that \<^verbatim>\<open>HomepageFeatures\<close> returns for the shipped list is
  never an error, whatever the style sheet defines: the \<^verbatim>\<open>Svg\<close> of every shipped record
  is a component, so no element of an invalid type is made.
\<close>

theorem shipped_render_never_fails:
  "\<not> isl (render styles (fst (HomepageFeatures styles shipped)))
   \<and> list_all (\<lambda>r. \<exists>f. get_prop r ''Svg'' = JFunction f) (FeatureList shipped)"
  by (simp add: HomepageFeatures_def shipped_def map_idx_def enumerate_eq_zip
        upt_rec [of 0 3] upt_rec [of 1 3] upt_rec [of 2 3] spread_def jsx_Feature_def
        get_prop_def Feature_def clsx_def Heading_def require_default_def digits.simps)

text \<open>
  C4. The shipped \<^verbatim>\<open>FeatureList\<close> has exactly three records, and \<^verbatim>\<open>HomepageFeatures\<close>
  renders exactly three cards from it: three \<^verbatim>\<open>Feature\<close> elements in the tree it
  returns, three nodes in the row of the rendered page.
\<close>

theorem shipped_three_cards:
  "length (FeatureList shipped) = 3
   \<and> length (feature_elements (fst (HomepageFeatures styles shipped))) = 3
   \<and> (\<exists>c1 c2 c3. render styles (fst (HomepageFeatures styles shipped)) =
         Inr [Node ''section'' [(''className'', get_prop styles ''features'')]
               [Node ''div'' [(''className'', JString ''container'')]
                 [Node ''div'' [(''className'', JString ''row'')] [c1, c2, c3]]]])"
  by (simp add: feature_elements_HomepageFeatures)
     (simp add: HomepageFeatures_def shipped_def map_idx_def enumerate_eq_zip
        upt_rec [of 0 3] upt_rec [of 1 3] upt_rec [of 2 3] spread_def jsx_Feature_def
        get_prop_def Feature_def clsx_def Heading_def require_default_def digits.simps)

text \<open>
  C5. \<^verbatim>\<open>HomepageFeatures\<close> is deterministic and stateless. Take two stores whose
  arrays refer to the same records, whatever else the stores hold and wherever the
  records lie: with the same style sheet, a render in the one and a render in the other
  give the same output. And a second render, made in the store that the first render
  left, gives the output of the first.
\<close>

theorem render_page_deterministic:
  assumes "list_all (\<lambda>a. a < length (objects s1)) (array s1)"
      and "list_all (\<lambda>a. a < length (objects s2)) (array s2)"
      and "map (deref s1) (array s1) = map (deref s2) (array s2)"
  shows "fst (render_page styles s1) = fst (render_page styles s2)
         \<and> fst (render_page styles (snd (render_page styles s1))) =
             fst (render_page styles s1)"
proof -
  let ?s1' = "snd (render_page styles s1)"
  have two: "fst (render_page styles s1) = fst (render_page styles s2)"
    by (simp only: render_page_refines [OF assms(1)] render_page_refines [OF assms(2)]
          assms(3))
  have a: "array ?s1' = array s1"
    and t: "take (length (objects s1)) (objects ?s1') = objects s1"
    using render_page_frame [of styles s1] by blast+
  from t have "length (take (length (objects s1)) (objects ?s1')) = length (objects s1)"
    by simp
  then have "length (objects s1) \<le> length (objects ?s1')"
    by simp
  with assms(1) have valid: "list_all (\<lambda>a. a < length (objects ?s1')) (array ?s1')"
    by (auto simp: a list_all_length)
  have "map (deref ?s1') (array ?s1') = map (deref s1) (array s1)"
    unfolding a
  proof (rule map_cong [OF refl])
    fix x
    assume "x \<in> set (array s1)"
    with assms(1) have "x < length (objects s1)"
      by (simp add: list_all_iff)
    then show "deref ?s1' x = deref s1 x"
      by (rule deref_frame [OF t])
  qed
  then have "fst (render_page styles ?s1') = fst (render_page styles s1)"
    by (simp only: render_page_refines [OF valid] render_page_refines [OF assms(1)])
  with two show ?thesis by simp
qed

theorem render_page_deterministic_witness:
  "list_all (\<lambda>a. a < length (objects
       \<lparr>objects = [[(''title'', JString ''T''), (''Svg'', JFunction ''Icon''),
                    (''description'', JString ''D'')]],
        array = [0]\<rparr>))
     (array
       \<lparr>objects = [[(''title'', JString ''T''), (''Svg'', JFunction ''Icon''),
                    (''description'', JString ''D'')]],
        array = [0]\<rparr>)
   \<and> list_all (\<lambda>a. a < length (objects
       \<lparr>objects = [[(''visits'', JNumber 7)],
                   [(''title'', JString ''T''), (''Svg'', JFunction ''Icon''),
                    (''description'', JString ''D'')]],
        array = [1]\<rparr>))
     (array
       \<lparr>objects = [[(''visits'', JNumber 7)],
                   [(''title'', JString ''T''), (''Svg'', JFunction ''Icon''),
                    (''description'', JString ''D'')]],
        array = [1]\<rparr>)
   \<and> map (deref
       \<lparr>objects = [[(''title'', JString ''T''), (''Svg'', JFunction ''Icon''),
                    (''description'', JString ''D'')]],
        array = [0]\<rparr>) [0] =
      map (deref
       \<lparr>objects = [[(''visits'', JNumber 7)],
                   [(''title'', JString ''T''), (''Svg'', JFunction ''Icon''),
                    (''description'', JString ''D'')]],
        array = [1]\<rparr>) [1]
   \<and> fst (render_page []
       \<lparr>objects = [[(''title'', JString ''T''), (''Svg'', JFunction ''Icon''),
                    (''description'', JString ''D'')]],
        array = [0]\<rparr>) =
      fst (render_page []
       \<lparr>objects = [[(''visits'', JNumber 7)],
                   [(''title'', JString ''T''), (''Svg'', JFunction ''Icon''),
                    (''description'', JString ''D'')]],
        array = [1]\<rparr>)
   \<and> fst (render_page [] (snd (render_page []
       \<lparr>objects = [[(''title'', JString ''T''), (''Svg'', JFunction ''Icon''),
                    (''description'', JString ''D'')]],
        array = [0]\<rparr>))) =
      fst (render_page []
       \<lparr>objects = [[(''title'', JString ''T''), (''Svg'', JFunction ''Icon''),
                    (''description'', JString ''D'')]],
        array = [0]\<rparr>)
   \<and> fst (render_page []
       \<lparr>objects = [[(''title'', JString ''T''), (''Svg'', JFunction ''Icon''),
                    (''description'', JString ''D'')]],
        array = [0]\<rparr>) =
      Inr [Node ''section'' [(''className'', JUndefined)]
            [Node ''div'' [(''className'', JString ''container'')]
              [Node ''div'' [(''className'', JString ''row'')]
                [Node ''div'' [(''className'', JString ''col col--4'')]
                  [Node ''div'' [(''className'', JString ''text--center'')]
                     [Instance ''Icon'' [(''className'', JUndefined), (''role'', JString ''img'')] []],
                   Node ''div'' [(''className'', JString ''text--center padding-horiz--md'')]
                     [Instance ''@theme/Heading'' [(''as'', JString ''h3'')] [Text ''T''],
                      Node ''p'' [] [Text ''D'']]]]]]]"
proof -
  let ?s1 = "\<lparr>objects = [[(''title'', JString ''T''), (''Svg'', JFunction ''Icon''),
                    (''description'', JString ''D'')]],
        array = [0]\<rparr>"
  let ?s2 = "\<lparr>objects = [[(''visits'', JNumber 7)],
                   [(''title'', JString ''T''), (''Svg'', JFunction ''Icon''),
                    (''description'', JString ''D'')]],
        array = [1]\<rparr>"
  have v1: "list_all (\<lambda>a. a < length (objects ?s1)) (array ?s1)"
    by simp
  have v2: "list_all (\<lambda>a. a < length (objects ?s2)) (array ?s2)"
    by simp
  have same: "map (deref ?s1) (array ?s1) = map (deref ?s2) (array ?s2)"
    by (simp add: deref_def)
  have out: "fst (render_page [] ?s1) =
      Inr [Node ''section'' [(''className'', JUndefined)]
            [Node ''div'' [(''className'', JString ''container'')]
              [Node ''div'' [(''className'', JString ''row'')]
                [Node ''div'' [(''className'', JString ''col col--4'')]
                  [Node ''div'' [(''className'', JString ''text--center'')]
                     [Instance ''Icon'' [(''className'', JUndefined), (''role'', JString ''img'')] []],
                   Node ''div'' [(''className'', JString ''text--center padding-horiz--md'')]
                     [Instance ''@theme/Heading'' [(''as'', JString ''h3'')] [Text ''T''],
                      Node ''p'' [] [Text ''D'']]]]]]]"
    by (simp add: render_page_def HomepageFeatures_st_def callback_st_def spread_st_def
          jsx_Feature_st_def copy_properties_def copy_step_def new_object_def
          set_property_def deref_def render_st_def get_prop_def Feature_def clsx_def
          Heading_def)
  have same': "map (deref ?s1) [0] = map (deref ?s2) [1]"
    using same by simp
  from render_page_deterministic [OF v1 v2 same, of "[]"] v1 v2 same' out
  show ?thesis
    by (simp only: simp_thms)
qed

text \<open>
  C6. For every list of records, the tree that \<^verbatim>\<open>HomepageFeatures\<close> returns has as many
  \<^verbatim>\<open>Feature\<close> elements as the list has records; and when the tree renders, the row of
  the rendered page has as many card nodes as the list has records.
\<close>

theorem HomepageFeatures_card_count:
  "length (feature_elements (fst (HomepageFeatures styles m))) = length (FeatureList m)
   \<and> (render styles (fst (HomepageFeatures styles m)) =
         Inr [Node ''section'' s [Node ''div'' c [Node ''div'' r cards]]]
        \<longrightarrow> length cards = length (FeatureList m))"
proof (intro conjI impI)
  show "length (feature_elements (fst (HomepageFeatures styles m))) = length (FeatureList m)"
    by (simp add: feature_elements_HomepageFeatures)
next
  assume "render styles (fst (HomepageFeatures styles m)) =
         Inr [Node ''section'' s [Node ''div'' c [Node ''div'' r cards]]]"
  then have "render_elements styles
       (map (\<lambda>i. jsx_Feature (FeatureList m ! i) i)
          [0..<length (FeatureList m)]) = Inr cards"
    by (auto simp: HomepageFeatures_def map_idx_nth spread_def split: sum.splits)
  from render_elements_jsx_length [OF this] show "length cards = length (FeatureList m)"
    by simp
qed

theorem HomepageFeatures_card_count_witness:
  "length (feature_elements (fst (HomepageFeatures []
      \<lparr>FeatureList = [[(''title'', JString ''T''), (''Svg'', JFunction ''Icon''),
                        (''description'', JString ''D'')]]\<rparr>))) = 1
   \<and> render [] (fst (HomepageFeatures []
      \<lparr>FeatureList = [[(''title'', JString ''T''), (''Svg'', JFunction ''Icon''),
                        (''description'', JString ''D'')]]\<rparr>)) =
      Inr [Node ''section'' [(''className'', JUndefined)]
            [Node ''div'' [(''className'', JString ''container'')]
              [Node ''div'' [(''className'', JString ''row'')]
                [Node ''div'' [(''className'', JString ''col col--4'')]
                  [Node ''div'' [(''className'', JString ''text--center'')]
                     [Instance ''Icon'' [(''className'', JUndefined), (''role'', JString ''img'')] []],
                   Node ''div'' [(''className'', JString ''text--center padding-horiz--md'')]
                     [Instance ''@theme/Heading'' [(''as'', JString ''h3'')] [Text ''T''],
                      Node ''p'' [] [Text ''D'']]]]]]]
   \<and> length [Node ''div'' [(''className'', JString ''col col--4'')]
                  [Node ''div'' [(''className'', JString ''text--center'')]
                     [Instance ''Icon'' [(''className'', JUndefined), (''role'', JString ''img'')] []],
                   Node ''div'' [(''className'', JString ''text--center padding-horiz--md'')]
                     [Instance ''@theme/Heading'' [(''as'', JString ''h3'')] [Text ''T''],
                      Node ''p'' [] [Text ''D'']]]] = (1::nat)"
proof -
  have r: "render [] (fst (HomepageFeatures []
      \<lparr>FeatureList = [[(''title'', JString ''T''), (''Svg'', JFunction ''Icon''),
                        (''description'', JString ''D'')]]\<rparr>)) =
      Inr [Node ''section'' [(''className'', JUndefined)]
            [Node ''div'' [(''className'', JString ''container'')]
              [Node ''div'' [(''className'', JString ''row'')]
                [Node ''div'' [(''className'', JString ''col col--4'')]
                  [Node ''div'' [(''className'', JString ''text--center'')]
                     [Instance ''Icon'' [(''className'', JUndefined), (''role'', JString ''img'')] []],
                   Node ''div'' [(''className'', JString ''text--center padding-horiz--md'')]
                     [Instance ''@theme/Heading'' [(''as'', JString ''h3'')] [Text ''T''],
                      Node ''p'' [] [Text ''D'']]]]]]]"
    by (simp add: HomepageFeatures_def map_idx_def enumerate_eq_zip spread_def
          jsx_Feature_def get_prop_def Feature_def clsx_def Heading_def)
  from HomepageFeatures_card_count
    [of "[]" "\<lparr>FeatureList = [[(''title'', JString ''T''), (''Svg'', JFunction ''Icon''),
                        (''description'', JString ''D'')]]\<rparr>"] r
  show ?thesis by simp
qed

text \<open>
  C7. A rendered card is one column node holding the icon, which is an instance of the
  record's \<^verbatim>\<open>Svg\<close> component with role \<^verbatim>\<open>img\<close>, the title inside the theme's heading
  at level \<^verbatim>\<open>h3\<close>, and the description inside a paragraph; and the rendered page is the
  section, its container and one row, whose children are what the \<^verbatim>\<open>Feature\<close>
  elements made at line 58 from the records of \<^verbatim>\<open>FeatureList\<close> render to, one card
  after the other in the order of the array.
\<close>

theorem Feature_card_layout:
  assumes "get_prop props ''Svg'' = JFunction icon"
      and "render_static (get_prop props ''title'') = Inr t"
      and "render_static (get_prop props ''description'') = Inr d"
  shows "render styles (FeatureElement key props) =
           Inr [Node ''div'' [(''className'', JString ''col col--4'')]
                 [Node ''div'' [(''className'', JString ''text--center'')]
                    [Instance icon [(''className'', get_prop styles ''featureSvg''),
                                    (''role'', JString ''img'')] []],
                  Node ''div'' [(''className'', JString ''text--center padding-horiz--md'')]
                    [Instance ''@theme/Heading'' [(''as'', JString ''h3'')] t,
                     Node ''p'' [] d]]]
         \<and> render styles (fst (HomepageFeatures styles m)) =
             (case render_elements styles
                     (map (\<lambda>i. jsx_Feature (FeatureList m ! i) i)
                        [0..<length (FeatureList m)]) of
                Inl e \<Rightarrow> Inl e
              | Inr cards \<Rightarrow>
                  Inr [Node ''section'' [(''className'', get_prop styles ''features'')]
                        [Node ''div'' [(''className'', JString ''container'')]
                          [Node ''div'' [(''className'', JString ''row'')] cards]]])"
proof -
  have card: "render styles (FeatureElement key props) =
           Inr [Node ''div'' [(''className'', JString ''col col--4'')]
                 [Node ''div'' [(''className'', JString ''text--center'')]
                    [Instance icon [(''className'', get_prop styles ''featureSvg''),
                                    (''role'', JString ''img'')] []],
                  Node ''div'' [(''className'', JString ''text--center padding-horiz--md'')]
                    [Instance ''@theme/Heading'' [(''as'', JString ''h3'')] t,
                     Node ''p'' [] d]]]"
    using assms by (simp add: Feature_def Let_def clsx_def Heading_def)
  have "map (\<lambda>i. Feature styles (FeatureList m ! i)) [0..<length (FeatureList m)] =
      map (Feature styles) (FeatureList m)"
    by (rule nth_equalityI) simp_all
  then have "render_elements styles
        (map (\<lambda>i. jsx_Feature (FeatureList m ! i) i) [0..<length (FeatureList m)]) =
      render_children (map (Feature styles) (FeatureList m))"
    by (simp only: render_elements_jsx)
  then have "render styles (fst (HomepageFeatures styles m)) =
             (case render_elements styles
                     (map (\<lambda>i. jsx_Feature (FeatureList m ! i) i)
                        [0..<length (FeatureList m)]) of
                Inl e \<Rightarrow> Inl e
              | Inr cards \<Rightarrow>
                  Inr [Node ''section'' [(''className'', get_prop styles ''features'')]
                        [Node ''div'' [(''className'', JString ''container'')]
                          [Node ''div'' [(''className'', JString ''row'')] cards]]])"
    by (simp only: render_HomepageFeatures)
  with card show ?thesis
    by (simp only: simp_thms)
qed

theorem Feature_card_layout_witness:
  "get_prop (FeatureList shipped ! 0) ''Svg'' =
     JFunction ''@site/static/img/undraw_docusaurus_mountain.svg''
   \<and> render_static (get_prop (FeatureList shipped ! 0) ''title'') =
       Inr [Text ''Organized Study Notes'']
   \<and> render_static (get_prop (FeatureList shipped ! 0) ''description'') =
       Inr [Text ''Keep all your study notes structured and easily accessible in one centralized place.'']
   \<and> render [(''featureSvg'', JString ''featureSvg_x'')]
        (FeatureElement (Some ''0'') (FeatureList shipped ! 0)) =
       Inr [Node ''div'' [(''className'', JString ''col col--4'')]
             [Node ''div'' [(''className'', JString ''text--center'')]
                [Instance ''@site/static/img/undraw_docusaurus_mountain.svg''
                   [(''className'', JString ''featureSvg_x''), (''role'', JString ''img'')] []],
              Node ''div'' [(''className'', JString ''text--center padding-horiz--md'')]
                [Instance ''@theme/Heading'' [(''as'', JString ''h3'')]
                   [Text ''Organized Study Notes''],
                 Node ''p'' []
                   [Text ''Keep all your study notes structured and easily accessible in one centralized place.'']]]]"
proof -
  have s: "get_prop (FeatureList shipped ! 0) ''Svg'' =
      JFunction ''@site/static/img/undraw_docusaurus_mountain.svg''"
    by (simp add: shipped_def get_prop_def require_default_def)
  have t: "render_static (get_prop (FeatureList shipped ! 0) ''title'') =
      Inr [Text ''Organized Study Notes'']"
    by (simp add: shipped_def get_prop_def)
  have d: "render_static (get_prop (FeatureList shipped ! 0) ''description'') =
      Inr [Text ''Keep all your study notes structured and easily accessible in one centralized place.'']"
    by (simp add: shipped_def get_prop_def)
  have c: "get_prop [(''featureSvg'', JString ''featureSvg_x'')] ''featureSvg'' =
      JString ''featureSvg_x''"
    by (simp add: get_prop_def)
  from Feature_card_layout
    [OF s t d, of "[(''featureSvg'', JString ''featureSvg_x'')]" "Some ''0''" shipped]
  show ?thesis
    by (simp only: s t d c simp_thms)
qed

text \<open>
  C8. A render leaves \<^verbatim>\<open>FeatureList\<close> unchanged: the array refers to the same
  objects after it, and every object that the store held before it, the records among
  them, has the same properties after it. The store after a render is the store before
  it followed by fresh objects, two for each element of the array: the copy that the
  spread fills and the props object that \<^verbatim>\<open>jsx\<close> fills.
\<close>

theorem render_page_leaves_records:
  "array (snd (render_page styles s)) = array s
   \<and> take (length (objects s)) (objects (snd (render_page styles s))) = objects s
   \<and> length (objects (snd (render_page styles s))) =
       length (objects s) + 2 * length (array s)"
  using map_loop_frame [of "length (array s)" 0 s]
    map_loop_count [of 0 "length (array s)" s]
  by (simp add: render_page_def HomepageFeatures_st_def split_beta)

text \<open>
  C9, as stated: for every list, the keys of the \<^verbatim>\<open>Feature\<close> elements are the indices
  and so pairwise distinct. This fails. In \<^verbatim>\<open><Feature key={idx} {...props} />\<close> the
  spread comes after the key, and a record's own \<^verbatim>\<open>key\<close> property replaces the index:
  two records that both carry the key \<^verbatim>\<open>a\<close> give two elements with the key \<^verbatim>\<open>a\<close>.
\<close>

theorem keys_are_indices_counterexample:
  "map key_of (feature_elements (fst (HomepageFeatures []
      \<lparr>FeatureList = [ [(''key'', JString ''a''), (''title'', JString ''One'')],
                       [(''key'', JString ''a''), (''title'', JString ''Two'')] ]\<rparr>)))
     = [Some ''a'', Some ''a'']
   \<and> \<not> distinct (map key_of (feature_elements (fst (HomepageFeatures []
      \<lparr>FeatureList = [ [(''key'', JString ''a''), (''title'', JString ''One'')],
                       [(''key'', JString ''a''), (''title'', JString ''Two'')] ]\<rparr>))))"
  by (simp add: HomepageFeatures_def map_idx_def enumerate_eq_zip upt_rec [of 0 2]
        upt_rec [of 1 2] spread_def jsx_Feature_def get_prop_def)

text \<open>
  C9, amended: for every list none of whose records has a defined \<^verbatim>\<open>key\<close> property,
  as is the case of the shipped list, the keys of the \<^verbatim>\<open>Feature\<close> elements are the
  decimal strings of the indices 0 to N-1, in order, and they are pairwise distinct.
\<close>

theorem keys_are_indices:
  assumes "list_all (\<lambda>r. get_prop r ''key'' = JUndefined) (FeatureList m)"
  shows "map key_of (feature_elements (fst (HomepageFeatures styles m))) =
           map (\<lambda>i. Some (digits i)) [0..<length (FeatureList m)]
         \<and> distinct (map key_of (feature_elements (fst (HomepageFeatures styles m))))"
proof -
  have keys: "map key_of (feature_elements (fst (HomepageFeatures styles m))) =
           map (\<lambda>i. Some (digits i)) [0..<length (FeatureList m)]"
    using assms
    by (auto simp: feature_elements_HomepageFeatures list_all_length key_of_jsx_Feature_index)
  have "inj (\<lambda>i. Some (digits i))"
    using inj_digits by (auto simp: inj_def)
  then have "distinct (map (\<lambda>i. Some (digits i)) [0..<length (FeatureList m)])"
    by (simp add: distinct_map inj_on_def inj_def)
  with keys show ?thesis by simp
qed

theorem keys_are_indices_witness:
  "list_all (\<lambda>r. get_prop r ''key'' = JUndefined) (FeatureList shipped)
   \<and> map key_of (feature_elements (fst (HomepageFeatures [] shipped))) =
       [Some ''0'', Some ''1'', Some ''2'']
   \<and> distinct (map key_of (feature_elements (fst (HomepageFeatures [] shipped))))"
proof -
  have h: "list_all (\<lambda>r. get_prop r ''key'' = JUndefined) (FeatureList shipped)"
    by (simp add: shipped_def get_prop_def)
  have l: "length (FeatureList shipped) = 3"
    by (simp add: shipped_def)
  have d: "map (\<lambda>i. Some (digits i)) [0..<3] = [Some ''0'', Some ''1'', Some ''2'']"
    by code_simp
  from keys_are_indices [OF h, of "[]"] h l d show ?thesis by simp
qed

text \<open>
  C10. A card depends on the \<^verbatim>\<open>Svg\<close>, the title and the description of its record
  only: two records that agree on these three give the same tree from \<^verbatim>\<open>Feature\<close>, and
  the \<^verbatim>\<open>Feature\<close> elements made from them at line 58 render to the same output,
  whatever their other properties and their indices are.
\<close>

theorem Feature_reads_three_fields:
  assumes "get_prop r1 ''Svg'' = get_prop r2 ''Svg''"
      and "get_prop r1 ''title'' = get_prop r2 ''title''"
      and "get_prop r1 ''description'' = get_prop r2 ''description''"
  shows "Feature styles r1 = Feature styles r2
         \<and> render styles (jsx_Feature (spread r1) k1) =
             render styles (jsx_Feature (spread r2) k2)"
proof -
  have same: "Feature styles r1 = Feature styles r2"
    using assms by (simp add: Feature_def)
  have props: "Feature styles (props_of (jsx_Feature r k)) = Feature styles r" for r k
    by (simp add: Feature_def get_prop_jsx_Feature)
  have "render styles (jsx_Feature r k) =
      render_static (Feature styles (props_of (jsx_Feature r k)))" for r k
    by (simp add: jsx_Feature_def Let_def)
  then have "render styles (jsx_Feature r k) = render_static (Feature styles r)" for r k
    by (simp only: props)
  with same show ?thesis
    by (simp only: spread_def simp_thms)
qed

theorem Feature_reads_three_fields_witness:
  "get_prop [(''title'', JString ''T''), (''Svg'', JFunction ''Icon''),
             (''description'', JString ''D'')] ''Svg'' =
     get_prop [(''badge'', JString ''new''), (''title'', JString ''T''),
               (''Svg'', JFunction ''Icon''), (''description'', JString ''D''),
               (''key'', JString ''k'')] ''Svg''
   \<and> get_prop [(''title'', JString ''T''), (''Svg'', JFunction ''Icon''),
               (''description'', JString ''D'')] ''title'' =
       get_prop [(''badge'', JString ''new''), (''title'', JString ''T''),
               (''Svg'', JFunction ''Icon''), (''description'', JString ''D''),
               (''key'', JString ''k'')] ''title''
   \<and> get_prop [(''title'', JString ''T''), (''Svg'', JFunction ''Icon''),
               (''description'', JString ''D'')] ''description'' =
       get_prop [(''badge'', JString ''new''), (''title'', JString ''T''),
               (''Svg'', JFunction ''Icon''), (''description'', JString ''D''),
               (''key'', JString ''k'')] ''description''
   \<and> Feature [] [(''title'', JString ''T''), (''Svg'', JFunction ''Icon''),
                (''description'', JString ''D'')] =
       Feature [] [(''badge'', JString ''new''), (''title'', JString ''T''),
               (''Svg'', JFunction ''Icon''), (''description'', JString ''D''),
               (''key'', JString ''k'')]
   \<and> render [] (jsx_Feature (spread [(''title'', JString ''T''), (''Svg'', JFunction ''Icon''),
                (''description'', JString ''D'')]) 0) =
       render [] (jsx_Feature (spread [(''badge'', JString ''new''), (''title'', JString ''T''),
               (''Svg'', JFunction ''Icon''), (''description'', JString ''D''),
               (''key'', JString ''k'')]) 1)"
proof -
  have a: "get_prop [(''title'', JString ''T''), (''Svg'', JFunction ''Icon''),
             (''description'', JString ''D'')] ''Svg'' =
     get_prop [(''badge'', JString ''new''), (''title'', JString ''T''),
               (''Svg'', JFunction ''Icon''), (''description'', JString ''D''),
               (''key'', JString ''k'')] ''Svg''"
    by (simp add: get_prop_def)
  have b: "get_prop [(''title'', JString ''T''), (''Svg'', JFunction ''Icon''),
               (''description'', JString ''D'')] ''title'' =
       get_prop [(''badge'', JString ''new''), (''title'', JString ''T''),
               (''Svg'', JFunction ''Icon''), (''description'', JString ''D''),
               (''key'', JString ''k'')] ''title''"
    by (simp add: get_prop_def)
  have c: "get_prop [(''title'', JString ''T''), (''Svg'', JFunction ''Icon''),
               (''description'', JString ''D'')] ''description'' =
       get_prop [(''badge'', JString ''new''), (''title'', JString ''T''),
               (''Svg'', JFunction ''Icon''), (''description'', JString ''D''),
               (''key'', JString ''k'')] ''description''"
    by (simp add: get_prop_def)
  from Feature_reads_three_fields [OF a b c, of "[]" 0 1] a b c
  show ?thesis by (simp only: simp_thms)
qed

end
